theory Spec2Isabelle
  imports Main "HOL-Library.Sublist"
begin

section \<open>The connection objects of psycopg3 (connection.py)\<close>

text \<open>
  A shallow embedding of \<^verbatim>\<open>psycopg3/connection.py\<close>: the classes
  \<^verbatim>\<open>BaseConnection\<close>, \<^verbatim>\<open>Connection\<close> (blocking) and
  \<^verbatim>\<open>AsyncConnection\<close> (cooperative).

  Naming: a method \<^verbatim>\<open>m\<close> of class \<^verbatim>\<open>C\<close> is the constant \<open>C_m\<close>;
  a leading underscore of the Python name is written \<open>priv_\<close>, so
  \<^verbatim>\<open>Connection._start_query\<close> is \<open>Connection_priv_start_query\<close> and the
  attribute \<^verbatim>\<open>self._autocommit\<close> is the field \<open>priv_autocommit\<close>.

  Python \<^verbatim>\<open>bytes\<close> are lists of \<open>char\<close> (one \<open>char\<close> is one byte). A Python
  \<^verbatim>\<open>str\<close> is a list of \<open>char\<close> too; every text literal of the source is ASCII.

  An operation that can raise returns a pair: \<open>Inl\<close> of the exception or \<open>Inr\<close> of the
  returned value, and the connection as the operation leaves it (attributes assigned
  before a raise stay assigned).

  The guard (\<^verbatim>\<open>with self.lock\<close>, \<^verbatim>\<open>async with self.lock\<close>) is acquired on entry
  and released on exit of the guarded block, also when the block raises. The embedding
  follows one caller at a time, for whom the guard is free on entry; the guarded block is
  then the whole effect of the statement.
\<close>

type_synonym bytes = string
type_synonym str = string

subsection \<open>Exceptions\<close>

text \<open>
  The exception classes the module raises itself (\<^verbatim>\<open>e.ProgrammingError\<close>,
  \<^verbatim>\<open>e.OperationalError\<close>, \<^verbatim>\<open>e.NotSupportedError\<close>, \<^verbatim>\<open>AttributeError\<close>,
  \<^verbatim>\<open>NotImplementedError\<close>), those its expressions raise implicitly
  (\<^verbatim>\<open>ValueError\<close> from unpacking \<^verbatim>\<open>(pgres,) = results\<close> when \<^verbatim>\<open>results\<close> has
  not exactly one element, \<^verbatim>\<open>IndexError\<close> from \<^verbatim>\<open>results[-1]\<close> on an empty list,
  \<^verbatim>\<open>UnicodeDecodeError\<close> and \<^verbatim>\<open>UnicodeEncodeError\<close> from \<^verbatim>\<open>decode\<close> and
  \<^verbatim>\<open>encode\<close>), and \<open>OtherError\<close> for any other instance of \<^verbatim>\<open>Exception\<close>
  raised by the handle or by a user callback.
\<close>

datatype error =
    ProgrammingError str
  | OperationalError str
  | NotSupportedError str
  | AttributeError str
  | NotImplementedError
  | ValueError
  | IndexError
  | UnicodeDecodeError
  | UnicodeEncodeError
  | OtherError str

subsection \<open>The handle (pq.proto.PGconn) and its results\<close>

text \<open>
  Modelled from the spec: the enumerations \<^verbatim>\<open>pq.ConnStatus\<close>,
  \<^verbatim>\<open>pq.TransactionStatus\<close> and \<^verbatim>\<open>pq.ExecStatus\<close> are declared in the package
  \<^verbatim>\<open>pq\<close>, outside this module. The module names \<^verbatim>\<open>ConnStatus.BAD\<close>,
  \<^verbatim>\<open>TransactionStatus.IDLE\<close>, \<^verbatim>\<open>ExecStatus.COMMAND_OK\<close> and
  \<^verbatim>\<open>ExecStatus.TUPLES_OK\<close>; the other members follow the specification's lists
  (connection status Starting, Ok, Bad; transaction status Idle, ActiveCommand,
  InTransaction, InErrorRecovery, Unknown).
\<close>

datatype ConnStatus = OK | BAD | STARTING

datatype TransactionStatus = IDLE | ACTIVE | INTRANS | INERROR | UNKNOWN

datatype ExecStatus =
  EMPTY_QUERY | COMMAND_OK | TUPLES_OK | COPY_OUT | COPY_IN
  | BAD_RESPONSE | NONFATAL_ERROR | FATAL_ERROR

text \<open>The member name that \<^verbatim>\<open>TransactionStatus(status).name\<close> evaluates to.\<close>

fun TransactionStatus_name :: "TransactionStatus \<Rightarrow> str" where
  "TransactionStatus_name IDLE = ''IDLE''"
| "TransactionStatus_name ACTIVE = ''ACTIVE''"
| "TransactionStatus_name INTRANS = ''INTRANS''"
| "TransactionStatus_name INERROR = ''INERROR''"
| "TransactionStatus_name UNKNOWN = ''UNKNOWN''"

text \<open>
  Modelled from the spec: the class of the handle's results is declared in \<^verbatim>\<open>pq\<close>.
  The specification gives a result a status and a diagnostic message. The module reads
  \<^verbatim>\<open>status\<close> and passes the result whole to \<^verbatim>\<open>pq.error_message\<close>,
  \<^verbatim>\<open>e.error_from_result\<close> and \<^verbatim>\<open>e.Diagnostic\<close>; \<open>result_message\<close> is the raw
  diagnostic the server sent with it.
\<close>

datatype PGresult = PGresult (result_status: ExecStatus) (result_message: bytes)

text \<open>
  Modelled from the spec: \<^verbatim>\<open>pq.PGnotify\<close>, of which the module reads
  \<^verbatim>\<open>relname\<close>, \<^verbatim>\<open>extra\<close> and \<^verbatim>\<open>be_pid\<close> (the specification's channel,
  payload and sender process id).
\<close>

datatype PGnotify = PGnotify (relname: bytes) (be_pid: int) (extra: bytes)

text \<open>
  The requests the module makes of the handle that reach the socket:
  \<^verbatim>\<open>pgconn.send_query(command)\<close>,
  \<^verbatim>\<open>pgconn.send_query_params(command, params)\<close>,
  \<^verbatim>\<open>wait(execute(pgconn))\<close> and \<^verbatim>\<open>wait(notifies(pgconn))\<close>.
\<close>

datatype call =
    SendQuery bytes
  | SendQueryParams bytes "bytes list"
  | Execute
  | Notifies

text \<open>
  Objects live at addresses. A reference to an object is strong (the object itself, as in
  \<^verbatim>\<open>partial(f, self)\<close>) or weak (\<^verbatim>\<open>weakref.ref(self)\<close>): a strong reference
  keeps its object alive, a weak one does not.
\<close>

type_synonym addr = nat

datatype reference = StrongRef addr | WeakRef addr

fun referent :: "reference \<Rightarrow> addr" where
  "referent (StrongRef a) = a"
| "referent (WeakRef a) = a"

text \<open>
  The handle, as far as the module reads and writes it: the attributes \<^verbatim>\<open>status\<close>
  and \<^verbatim>\<open>transaction_status\<close>, the method \<^verbatim>\<open>parameter_status\<close>, the two callback
  slots \<^verbatim>\<open>notice_handler\<close> and \<^verbatim>\<open>notify_handler\<close>, and \<open>calls\<close>, the requests
  made of it so far, oldest first. A slot is \<open>None\<close> while unset; \<open>Some r\<close> is
  \<^verbatim>\<open>partial(BaseConnection._notice_handler, r)\<close> in the first slot and
  \<^verbatim>\<open>partial(BaseConnection._notify_handler, r)\<close> in the second, with \<open>r\<close> the
  reference bound as the first argument.
\<close>

record pgconn =
  status :: ConnStatus
  transaction_status :: TransactionStatus
  parameter_status :: "bytes \<Rightarrow> bytes option"
  notice_handler :: "reference option"
  notify_handler :: "reference option"
  calls :: "call list"

subsection \<open>What the module imports\<close>

text \<open>
  The parts of the package and of Python that the module calls and that are defined
  outside it, as parameters:
  \<^item> \<open>decode codec b\<close>: \<^verbatim>\<open>b.decode(codec)\<close>, the text or the exception;
  \<^item> \<open>encode codec s\<close>: \<^verbatim>\<open>s.encode(codec)\<close>;
  \<^item> \<open>py_codecs\<close>: the table \<^verbatim>\<open>pq.py_codecs\<close>, \<open>None\<close> where a lookup raises
    \<^verbatim>\<open>KeyError\<close>;
  \<^item> \<open>error_message res enc\<close>: \<^verbatim>\<open>pq.error_message(res, encoding=enc)\<close>;
  \<^item> \<open>error_from_result res enc\<close>: \<^verbatim>\<open>e.error_from_result(res, encoding=enc)\<close>;
  \<^item> \<open>send_raises pg c\<close>: the exception the handle raises when the request \<open>c\<close> is
    made of it, if it raises one;
  \<^item> \<open>execute_reply pg\<close>: what \<^verbatim>\<open>wait(execute(pgconn))\<close> returns or raises, and the
    handle as the exchange leaves it;
  \<^item> \<open>notifies_reply pg\<close>: the same for \<^verbatim>\<open>wait(notifies(pgconn))\<close>.

  The waiters (\<^verbatim>\<open>waiting.wait\<close>, \<^verbatim>\<open>waiting.wait_async\<close>) and the generators they
  drive are outside this module; a wait is taken here as an exchange that ends, with a
  value or with an exception. Nothing below speaks of a wait that never ends.
\<close>

record env =
  decode :: "str \<Rightarrow> bytes \<Rightarrow> error + str"
  encode :: "str \<Rightarrow> str \<Rightarrow> error + bytes"
  py_codecs :: "bytes \<Rightarrow> str option"
  error_message :: "PGresult \<Rightarrow> str \<Rightarrow> str"
  error_from_result :: "PGresult \<Rightarrow> str \<Rightarrow> error"
  send_raises :: "pgconn \<Rightarrow> call \<Rightarrow> error option"
  execute_reply :: "pgconn \<Rightarrow> (error + PGresult list) \<times> pgconn"
  notifies_reply :: "pgconn \<Rightarrow> (error + PGnotify list) \<times> pgconn"

text \<open>
  The four requests, as the module makes them. Each records the request in \<open>calls\<close>
  before the handle answers; the reply of the handle cannot rewrite that record.
\<close>

definition send_query :: "env \<Rightarrow> pgconn \<Rightarrow> bytes \<Rightarrow> error option \<times> pgconn" where
  "send_query E pg command =
     (send_raises E pg (SendQuery command),
      pg\<lparr>calls := calls pg @ [SendQuery command]\<rparr>)"

definition send_query_params ::
  "env \<Rightarrow> pgconn \<Rightarrow> bytes \<Rightarrow> bytes list \<Rightarrow> error option \<times> pgconn" where
  "send_query_params E pg command params =
     (send_raises E pg (SendQueryParams command params),
      pg\<lparr>calls := calls pg @ [SendQueryParams command params]\<rparr>)"

definition wait_execute :: "env \<Rightarrow> pgconn \<Rightarrow> (error + PGresult list) \<times> pgconn" where
  "wait_execute E pg =
     (fst (execute_reply E pg),
      (snd (execute_reply E pg))\<lparr>calls := calls pg @ [Execute]\<rparr>)"

definition wait_notifies :: "env \<Rightarrow> pgconn \<Rightarrow> (error + PGnotify list) \<times> pgconn" where
  "wait_notifies E pg =
     (fst (notifies_reply E pg),
      (snd (notifies_reply E pg))\<lparr>calls := calls pg @ [Notifies]\<rparr>)"

subsection \<open>Callbacks and the connection\<close>

text \<open>
  A registered handler is a Python callable: called with its argument it returns or
  raises. \<open>cb_name\<close> tells one handler from another in the record of invocations.
\<close>

datatype 'a callback = Callback (cb_name: str) (cb_call: "'a \<Rightarrow> error option")

text \<open>
  Modelled from the spec: the class \<^verbatim>\<open>e.Diagnostic\<close> is declared in the package's
  \<^verbatim>\<open>errors\<close>; \<^verbatim>\<open>e.Diagnostic(res, encoding)\<close> keeps its two arguments, the
  notice and the text encoding to decode it with.
\<close>

datatype Diagnostic = Diagnostic PGresult str

text \<open>The named tuple \<^verbatim>\<open>Notify\<close>.\<close>

datatype Notify = Notify (channel: str) (payload: str) (pid: int)

type_synonym NoticeHandler = "Diagnostic callback"
type_synonym NotifyHandler = "Notify callback"

text \<open>The attributes \<^verbatim>\<open>BaseConnection.__init__\<close> assigns and the module reads.\<close>

record connection =
  pgconn :: pgconn
  priv_autocommit :: bool
  priv_notice_handlers :: "NoticeHandler list"
  priv_notify_handlers :: "NotifyHandler list"
  priv_pgenc :: bytes
  priv_pyenc :: str

text \<open>
  \<^verbatim>\<open>BaseConnection.__init__(self, pgconn)\<close>, with \<open>a\<close> the address of \<^verbatim>\<open>self\<close>.
  After the attributes, \<^verbatim>\<open>wself = ref(self)\<close> is made and bound into the two
  callbacks that are stored in the slots of the handle.
\<close>

definition BaseConnection_init :: "addr \<Rightarrow> pgconn \<Rightarrow> connection" where
  "BaseConnection_init a pg =
     \<lparr>pgconn = pg\<lparr>notice_handler := Some (WeakRef a), notify_handler := Some (WeakRef a)\<rparr>,
      priv_autocommit = False, priv_notice_handlers = [],
      priv_notify_handlers = [], priv_pgenc = [], priv_pyenc = ''utf-8''\<rparr>"

text \<open>The properties \<^verbatim>\<open>status\<close>, \<^verbatim>\<open>closed\<close> and \<^verbatim>\<open>autocommit\<close>.\<close>

definition BaseConnection_status :: "connection \<Rightarrow> ConnStatus" where
  "BaseConnection_status self = status (pgconn self)"

definition BaseConnection_closed :: "connection \<Rightarrow> bool" where
  "BaseConnection_closed self = (BaseConnection_status self = BAD)"

definition BaseConnection_autocommit :: "connection \<Rightarrow> bool" where
  "BaseConnection_autocommit self = priv_autocommit self"

subsection \<open>Setting autocommit\<close>

text \<open>
  \<^verbatim>\<open>BaseConnection._set_autocommit\<close>: raise unless the transaction status is IDLE,
  then assign.
\<close>

definition BaseConnection_priv_set_autocommit ::
  "connection \<Rightarrow> bool \<Rightarrow> (error + unit) \<times> connection" where
  "BaseConnection_priv_set_autocommit self v =
     (let st = transaction_status (pgconn self) in
      if st \<noteq> IDLE then
        (Inl (ProgrammingError
           (''couldn't change autocommit state: connection in''
             @ '' transaction status '' @ TransactionStatus_name st)), self)
      else (Inr (), self\<lparr>priv_autocommit := v\<rparr>))"

text \<open>
  \<^verbatim>\<open>Connection._set_autocommit\<close>: the base method under the thread lock.
  \<^verbatim>\<open>AsyncConnection.set_autocommit\<close>: the base method under the asyncio lock.
  \<^verbatim>\<open>AsyncConnection._set_autocommit\<close>, which the property setter calls, raises.
\<close>

definition Connection_priv_set_autocommit ::
  "connection \<Rightarrow> bool \<Rightarrow> (error + unit) \<times> connection" where
  "Connection_priv_set_autocommit self v = BaseConnection_priv_set_autocommit self v"

definition AsyncConnection_set_autocommit ::
  "connection \<Rightarrow> bool \<Rightarrow> (error + unit) \<times> connection" where
  "AsyncConnection_set_autocommit self v = BaseConnection_priv_set_autocommit self v"

definition autocommit_read_only :: str where
  "autocommit_read_only =
     ''autocommit is read-only on async connections:''
       @ '' please use await connection.set_autocommit() instead.''
       @ '' Note that you can pass an 'autocommit' value to 'connect()''
       @ ''' if it doesn't need to change during the connection's lifetime.''"

definition AsyncConnection_priv_set_autocommit ::
  "connection \<Rightarrow> bool \<Rightarrow> (error + unit) \<times> connection" where
  "AsyncConnection_priv_set_autocommit self v = (Inl (AttributeError autocommit_read_only), self)"

subsection \<open>The client encoding\<close>

text \<open>Python's \<^verbatim>\<open>x or b""\<close> on an optional byte string.\<close>

definition or_empty :: "bytes option \<Rightarrow> bytes" where
  "or_empty x = (case x of None \<Rightarrow> [] | Some v \<Rightarrow> if v = [] then [] else v)"

text \<open>
  The property \<^verbatim>\<open>BaseConnection.pyenc\<close>. The lookup in \<^verbatim>\<open>pq.py_codecs\<close> assigns
  \<^verbatim>\<open>self._pyenc\<close>; on \<^verbatim>\<open>KeyError\<close> the handler formats its message with
  \<^verbatim>\<open>pgenc.decode('ascii')\<close> and raises before \<^verbatim>\<open>self._pgenc\<close> is assigned.
\<close>

definition BaseConnection_pyenc :: "env \<Rightarrow> connection \<Rightarrow> (error + str) \<times> connection" where
  "BaseConnection_pyenc E self =
     (let pgenc = or_empty (parameter_status (pgconn self) ''client_encoding'') in
      if priv_pgenc self \<noteq> pgenc then
        (if pgenc \<noteq> [] then
           (case py_codecs E pgenc of
              Some codec \<Rightarrow>
                (Inr codec, self\<lparr>priv_pyenc := codec, priv_pgenc := pgenc\<rparr>)
            | None \<Rightarrow>
                (case decode E ''ascii'' pgenc of
                   Inl ex \<Rightarrow> (Inl ex, self)
                 | Inr name \<Rightarrow>
                     (Inl (NotSupportedError
                        (''encoding '' @ name @ '' not available in Python'')), self)))
         else (Inr (priv_pyenc self), self\<lparr>priv_pgenc := pgenc\<rparr>))
      else (Inr (priv_pyenc self), self))"

text \<open>
  The property \<^verbatim>\<open>BaseConnection.client_encoding\<close>:
  \<^verbatim>\<open>rv.decode("utf-8") if rv else "UTF8"\<close>. Both \<^verbatim>\<open>None\<close> and the empty byte
  string are false.
\<close>

definition BaseConnection_client_encoding :: "env \<Rightarrow> connection \<Rightarrow> error + str" where
  "BaseConnection_client_encoding E self =
     (case parameter_status (pgconn self) ''client_encoding'' of
        None \<Rightarrow> Inr ''UTF8''
      | Some rv \<Rightarrow> if rv \<noteq> [] then decode E ''utf-8'' rv else Inr ''UTF8'')"

text \<open>
  \<^verbatim>\<open>BaseConnection._set_client_encoding\<close> raises \<^verbatim>\<open>NotImplementedError\<close>;
  \<^verbatim>\<open>AsyncConnection._set_client_encoding\<close>, which the property setter of the
  cooperative variant calls, raises \<^verbatim>\<open>AttributeError\<close>.
\<close>

definition BaseConnection_priv_set_client_encoding ::
  "connection \<Rightarrow> str \<Rightarrow> (error + unit) \<times> connection" where
  "BaseConnection_priv_set_client_encoding self v = (Inl NotImplementedError, self)"

definition client_encoding_read_only :: str where
  "client_encoding_read_only =
     '''client_encoding' is read-only on async connections:''
       @ '' please use await .set_client_encoding() instead.''"

definition AsyncConnection_priv_set_client_encoding ::
  "connection \<Rightarrow> str \<Rightarrow> (error + unit) \<times> connection" where
  "AsyncConnection_priv_set_client_encoding self v =
     (Inl (AttributeError client_encoding_read_only), self)"

text \<open>
  \<^verbatim>\<open>Connection._set_client_encoding\<close> and \<^verbatim>\<open>AsyncConnection.set_client_encoding\<close>
  have the same body. The argument \<^verbatim>\<open>value.encode("ascii")\<close> is evaluated before
  the request is made.
\<close>

definition set_config_command :: bytes where
  "set_config_command = ''select set_config('client_encoding', $1, false)''"

definition Connection_priv_set_client_encoding ::
  "env \<Rightarrow> connection \<Rightarrow> str \<Rightarrow> (error + unit) \<times> connection" where
  "Connection_priv_set_client_encoding E self v =
     (case encode E ''ascii'' v of
        Inl ex \<Rightarrow> (Inl ex, self)
      | Inr param \<Rightarrow>
          (case send_query_params E (pgconn self) set_config_command [param] of
             (Some ex, pg1) \<Rightarrow> (Inl ex, self\<lparr>pgconn := pg1\<rparr>)
           | (None, pg1) \<Rightarrow>
               (case wait_execute E pg1 of
                  (Inl ex, pg2) \<Rightarrow> (Inl ex, self\<lparr>pgconn := pg2\<rparr>)
                | (Inr results, pg2) \<Rightarrow>
                    (case results of
                       [result] \<Rightarrow>
                         if result_status result \<noteq> TUPLES_OK then
                           (Inl (error_from_result E result (priv_pyenc self)),
                            self\<lparr>pgconn := pg2\<rparr>)
                         else (Inr (), self\<lparr>pgconn := pg2\<rparr>)
                     | _ \<Rightarrow> (Inl ValueError, self\<lparr>pgconn := pg2\<rparr>)))))"

definition AsyncConnection_set_client_encoding ::
  "env \<Rightarrow> connection \<Rightarrow> str \<Rightarrow> (error + unit) \<times> connection" where
  "AsyncConnection_set_client_encoding E self v =
     (case encode E ''ascii'' v of
        Inl ex \<Rightarrow> (Inl ex, self)
      | Inr param \<Rightarrow>
          (case send_query_params E (pgconn self) set_config_command [param] of
             (Some ex, pg1) \<Rightarrow> (Inl ex, self\<lparr>pgconn := pg1\<rparr>)
           | (None, pg1) \<Rightarrow>
               (case wait_execute E pg1 of
                  (Inl ex, pg2) \<Rightarrow> (Inl ex, self\<lparr>pgconn := pg2\<rparr>)
                | (Inr results, pg2) \<Rightarrow>
                    (case results of
                       [result] \<Rightarrow>
                         if result_status result \<noteq> TUPLES_OK then
                           (Inl (error_from_result E result (priv_pyenc self)),
                            self\<lparr>pgconn := pg2\<rparr>)
                         else (Inr (), self\<lparr>pgconn := pg2\<rparr>)
                     | _ \<Rightarrow> (Inl ValueError, self\<lparr>pgconn := pg2\<rparr>)))))"

subsection \<open>Notice and notification dispatch\<close>

text \<open>
  What one invocation of a handle-level callback does: the exception that leaves it, if
  one does; the handlers it called, in order, each with its argument; and the entries it
  wrote with \<^verbatim>\<open>package_logger.exception\<close> (the handler and its exception).
\<close>

record 'a effects =
  raised :: "error option"
  invoked :: "(str \<times> 'a) list"
  logged :: "(str \<times> error) list"

definition quiet :: "'a effects" where
  "quiet = \<lparr>raised = None, invoked = [], logged = []\<rparr>"

text \<open>
  The loop of \<^verbatim>\<open>_notice_handler\<close>: each call is inside
  \<^verbatim>\<open>try ... except Exception\<close>, which logs and goes on.
\<close>

fun notice_loop :: "NoticeHandler list \<Rightarrow> Diagnostic \<Rightarrow> Diagnostic effects \<Rightarrow> Diagnostic effects"
  where
  "notice_loop [] diag fx = fx"
| "notice_loop (cb # cbs) diag fx =
     (case cb_call cb diag of
        None \<Rightarrow> notice_loop cbs diag (fx\<lparr>invoked := invoked fx @ [(cb_name cb, diag)]\<rparr>)
      | Some ex \<Rightarrow>
          notice_loop cbs diag
            (fx\<lparr>invoked := invoked fx @ [(cb_name cb, diag)],
                logged := logged fx @ [(cb_name cb, ex)]\<rparr>))"

text \<open>The loop of \<^verbatim>\<open>_notify_handler\<close>: the bare call \<^verbatim>\<open>cb(n)\<close>.\<close>

fun notify_loop :: "NotifyHandler list \<Rightarrow> Notify \<Rightarrow> Notify effects \<Rightarrow> Notify effects" where
  "notify_loop [] n fx = fx"
| "notify_loop (cb # cbs) n fx =
     (case cb_call cb n of
        None \<Rightarrow> notify_loop cbs n (fx\<lparr>invoked := invoked fx @ [(cb_name cb, n)]\<rparr>)
      | Some ex \<Rightarrow> fx\<lparr>invoked := invoked fx @ [(cb_name cb, n)], raised := Some ex\<rparr>)"

text \<open>
  \<^verbatim>\<open>BaseConnection._notice_handler(wself, res)\<close>. The first argument is what the
  weak reference resolves to: \<open>None\<close> once the connection is gone. The callback installed
  on the handle, \<^verbatim>\<open>partial(BaseConnection._notice_handler, wself)\<close>, holds the weak
  reference and nothing else of the connection.

  The guard is \<^verbatim>\<open>if not (self and self._notice_handler)\<close>: it reads the attribute
  \<^verbatim>\<open>_notice_handler\<close>, this function itself, which is true; the list is
  \<^verbatim>\<open>_notice_handlers\<close>. A connection object is true.
\<close>

definition BaseConnection_priv_notice_handler ::
  "connection option \<Rightarrow> PGresult \<Rightarrow> Diagnostic effects" where
  "BaseConnection_priv_notice_handler wself res =
     (case wself of
        None \<Rightarrow> quiet
      | Some self \<Rightarrow>
          (let function_is_true = True in
           if \<not> function_is_true then quiet
           else notice_loop (priv_notice_handlers self)
                  (Diagnostic res (priv_pyenc self)) quiet))"

text \<open>
  \<^verbatim>\<open>BaseConnection._notify_handler(wself, pgn)\<close>. The guard reads the list
  \<^verbatim>\<open>_notify_handlers\<close>; the two \<^verbatim>\<open>decode\<close> calls come before the loop.
\<close>

definition BaseConnection_priv_notify_handler ::
  "env \<Rightarrow> connection option \<Rightarrow> PGnotify \<Rightarrow> Notify effects" where
  "BaseConnection_priv_notify_handler E wself pgn =
     (case wself of
        None \<Rightarrow> quiet
      | Some self \<Rightarrow>
          if priv_notify_handlers self = [] then quiet
          else
            (case decode E (priv_pyenc self) (relname pgn) of
               Inl ex \<Rightarrow> quiet\<lparr>raised := Some ex\<rparr>
             | Inr ch \<Rightarrow>
                 (case decode E (priv_pyenc self) (extra pgn) of
                    Inl ex \<Rightarrow> quiet\<lparr>raised := Some ex\<rparr>
                  | Inr pl \<Rightarrow>
                      notify_loop (priv_notify_handlers self)
                        (Notify ch pl (be_pid pgn)) quiet)))"

text \<open>
  The connection objects that exist, by address. \<^verbatim>\<open>wself()\<close> is the object while it
  exists and \<^verbatim>\<open>None\<close> afterwards, whatever kind the reference is.
\<close>

type_synonym heap = "addr \<Rightarrow> connection option"

definition resolve :: "heap \<Rightarrow> reference \<Rightarrow> connection option" where
  "resolve h r = h (referent r)"

text \<open>
  The connections a handle keeps alive: those its callback slots refer to strongly.
\<close>

fun strong :: "reference option \<Rightarrow> addr list" where
  "strong (Some (StrongRef a)) = [a]"
| "strong (Some (WeakRef a)) = []"
| "strong None = []"

definition kept_alive_by :: "pgconn \<Rightarrow> addr list" where
  "kept_alive_by pg = strong (notice_handler pg) @ strong (notify_handler pg)"

text \<open>
  An object to which no strong reference is left is collected. \<open>collect holders h\<close> is
  the heap once that has happened, \<open>holders\<close> being the addresses still referred to
  strongly.
\<close>

definition collect :: "addr list \<Rightarrow> heap \<Rightarrow> heap" where
  "collect holders h = (\<lambda>a. if a \<in> set holders then h a else None)"

text \<open>
  The caller of \<^verbatim>\<open>connect\<close> lets go of the connection while the handle lives on: the
  only references left to any connection are those of the handle's callback slots.
\<close>

definition after_release :: "pgconn \<Rightarrow> heap \<Rightarrow> heap" where
  "after_release pg h = collect (kept_alive_by pg) h"

text \<open>
  Modelled from the spec: the handle calls the callback stored in a slot, when one is
  stored, with the notice or the notification it received (the callers are in the
  package's \<^verbatim>\<open>generators\<close> and \<^verbatim>\<open>pq\<close>). The call of the stored
  \<^verbatim>\<open>partial\<close> is the call of the \<^verbatim>\<open>BaseConnection\<close> function with the bound
  reference, which the function resolves first.
\<close>

definition call_notice_handler :: "heap \<Rightarrow> pgconn \<Rightarrow> PGresult \<Rightarrow> Diagnostic effects" where
  "call_notice_handler h pg res =
     (case notice_handler pg of
        None \<Rightarrow> quiet
      | Some wself \<Rightarrow> BaseConnection_priv_notice_handler (resolve h wself) res)"

definition call_notify_handler :: "env \<Rightarrow> heap \<Rightarrow> pgconn \<Rightarrow> PGnotify \<Rightarrow> Notify effects" where
  "call_notify_handler E h pg pgn =
     (case notify_handler pg of
        None \<Rightarrow> quiet
      | Some wself \<Rightarrow> BaseConnection_priv_notify_handler E (resolve h wself) pgn)"

text \<open>
  \<^verbatim>\<open>add_notice_handler\<close> and \<^verbatim>\<open>add_notify_handler\<close> append to the lists.
\<close>

definition BaseConnection_add_notice_handler :: "connection \<Rightarrow> NoticeHandler \<Rightarrow> connection"
  where
  "BaseConnection_add_notice_handler self cb =
     self\<lparr>priv_notice_handlers := priv_notice_handlers self @ [cb]\<rparr>"

definition BaseConnection_add_notify_handler :: "connection \<Rightarrow> NotifyHandler \<Rightarrow> connection"
  where
  "BaseConnection_add_notify_handler self cb =
     self\<lparr>priv_notify_handlers := priv_notify_handlers self @ [cb]\<rparr>"

subsection \<open>Transactions\<close>

text \<open>
  \<^verbatim>\<open>Connection._start_query\<close> and \<^verbatim>\<open>AsyncConnection._start_query\<close>: two early
  returns, then \<^verbatim>\<open>begin\<close> is sent and \<^verbatim>\<open>(pgres,) = wait(execute(pgconn))\<close>
  unpacks exactly one result.
\<close>

definition Connection_priv_start_query ::
  "env \<Rightarrow> connection \<Rightarrow> (error + unit) \<times> connection" where
  "Connection_priv_start_query E self =
     (if priv_autocommit self then (Inr (), self)
      else if transaction_status (pgconn self) \<noteq> IDLE then (Inr (), self)
      else
        (case send_query E (pgconn self) ''begin'' of
           (Some ex, pg1) \<Rightarrow> (Inl ex, self\<lparr>pgconn := pg1\<rparr>)
         | (None, pg1) \<Rightarrow>
             (case wait_execute E pg1 of
                (Inl ex, pg2) \<Rightarrow> (Inl ex, self\<lparr>pgconn := pg2\<rparr>)
              | (Inr results, pg2) \<Rightarrow>
                  (case results of
                     [pgres] \<Rightarrow>
                       if result_status pgres \<noteq> COMMAND_OK then
                         (Inl (OperationalError
                            (''error on begin:''
                              @ '' '' @ error_message E pgres (priv_pyenc self))),
                          self\<lparr>pgconn := pg2\<rparr>)
                       else (Inr (), self\<lparr>pgconn := pg2\<rparr>)
                   | _ \<Rightarrow> (Inl ValueError, self\<lparr>pgconn := pg2\<rparr>)))))"

definition AsyncConnection_priv_start_query ::
  "env \<Rightarrow> connection \<Rightarrow> (error + unit) \<times> connection" where
  "AsyncConnection_priv_start_query E self =
     (if priv_autocommit self then (Inr (), self)
      else if transaction_status (pgconn self) \<noteq> IDLE then (Inr (), self)
      else
        (case send_query E (pgconn self) ''begin'' of
           (Some ex, pg1) \<Rightarrow> (Inl ex, self\<lparr>pgconn := pg1\<rparr>)
         | (None, pg1) \<Rightarrow>
             (case wait_execute E pg1 of
                (Inl ex, pg2) \<Rightarrow> (Inl ex, self\<lparr>pgconn := pg2\<rparr>)
              | (Inr results, pg2) \<Rightarrow>
                  (case results of
                     [pgres] \<Rightarrow>
                       if result_status pgres \<noteq> COMMAND_OK then
                         (Inl (OperationalError
                            (''error on begin:''
                              @ '' '' @ error_message E pgres (priv_pyenc self))),
                          self\<lparr>pgconn := pg2\<rparr>)
                       else (Inr (), self\<lparr>pgconn := pg2\<rparr>)
                   | _ \<Rightarrow> (Inl ValueError, self\<lparr>pgconn := pg2\<rparr>)))))"

text \<open>
  The message of the failure that \<^verbatim>\<open>_exec_commit_rollback\<close> raises:
  \<^verbatim>\<open>f"error on {command.decode('utf8')}: {pq.error_message(res, encoding=self._pyenc)}"\<close>.
  The command is decoded first; if that raises, its exception is the one that leaves.
\<close>

definition commit_rollback_failure :: "env \<Rightarrow> bytes \<Rightarrow> PGresult \<Rightarrow> str \<Rightarrow> error" where
  "commit_rollback_failure E command res enc =
     (case decode E ''utf8'' command of
        Inl ex \<Rightarrow> ex
      | Inr name \<Rightarrow>
          OperationalError (''error on '' @ name @ '':'' @ '' '' @ error_message E res enc))"

text \<open>
  \<^verbatim>\<open>Connection._exec_commit_rollback\<close>: the status of \<^verbatim>\<open>results[-1]\<close> decides;
  on an empty list the subscript raises \<^verbatim>\<open>IndexError\<close>.
\<close>

definition Connection_priv_exec_commit_rollback ::
  "env \<Rightarrow> connection \<Rightarrow> bytes \<Rightarrow> (error + unit) \<times> connection" where
  "Connection_priv_exec_commit_rollback E self command =
     (if transaction_status (pgconn self) = IDLE then (Inr (), self)
      else
        (case send_query E (pgconn self) command of
           (Some ex, pg1) \<Rightarrow> (Inl ex, self\<lparr>pgconn := pg1\<rparr>)
         | (None, pg1) \<Rightarrow>
             (case wait_execute E pg1 of
                (Inl ex, pg2) \<Rightarrow> (Inl ex, self\<lparr>pgconn := pg2\<rparr>)
              | (Inr results, pg2) \<Rightarrow>
                  if results = [] then (Inl IndexError, self\<lparr>pgconn := pg2\<rparr>)
                  else if result_status (last results) \<noteq> COMMAND_OK then
                    (Inl (commit_rollback_failure E command (last results) (priv_pyenc self)),
                     self\<lparr>pgconn := pg2\<rparr>)
                  else (Inr (), self\<lparr>pgconn := pg2\<rparr>))))"

text \<open>
  \<^verbatim>\<open>AsyncConnection._exec_commit_rollback\<close>: \<^verbatim>\<open>(pgres,) = await ...\<close> unpacks
  exactly one result, and raises \<^verbatim>\<open>ValueError\<close> on any other number.
\<close>

definition AsyncConnection_priv_exec_commit_rollback ::
  "env \<Rightarrow> connection \<Rightarrow> bytes \<Rightarrow> (error + unit) \<times> connection" where
  "AsyncConnection_priv_exec_commit_rollback E self command =
     (if transaction_status (pgconn self) = IDLE then (Inr (), self)
      else
        (case send_query E (pgconn self) command of
           (Some ex, pg1) \<Rightarrow> (Inl ex, self\<lparr>pgconn := pg1\<rparr>)
         | (None, pg1) \<Rightarrow>
             (case wait_execute E pg1 of
                (Inl ex, pg2) \<Rightarrow> (Inl ex, self\<lparr>pgconn := pg2\<rparr>)
              | (Inr results, pg2) \<Rightarrow>
                  (case results of
                     [pgres] \<Rightarrow>
                       if result_status pgres \<noteq> COMMAND_OK then
                         (Inl (commit_rollback_failure E command pgres (priv_pyenc self)),
                          self\<lparr>pgconn := pg2\<rparr>)
                       else (Inr (), self\<lparr>pgconn := pg2\<rparr>)
                   | _ \<Rightarrow> (Inl ValueError, self\<lparr>pgconn := pg2\<rparr>)))))"

text \<open>\<^verbatim>\<open>commit\<close> and \<^verbatim>\<open>rollback\<close> of the two variants, under their guard.\<close>

definition Connection_commit :: "env \<Rightarrow> connection \<Rightarrow> (error + unit) \<times> connection" where
  "Connection_commit E self = Connection_priv_exec_commit_rollback E self ''commit''"

definition Connection_rollback :: "env \<Rightarrow> connection \<Rightarrow> (error + unit) \<times> connection" where
  "Connection_rollback E self = Connection_priv_exec_commit_rollback E self ''rollback''"

definition AsyncConnection_commit :: "env \<Rightarrow> connection \<Rightarrow> (error + unit) \<times> connection" where
  "AsyncConnection_commit E self = AsyncConnection_priv_exec_commit_rollback E self ''commit''"

definition AsyncConnection_rollback :: "env \<Rightarrow> connection \<Rightarrow> (error + unit) \<times> connection"
  where
  "AsyncConnection_rollback E self =
     AsyncConnection_priv_exec_commit_rollback E self ''rollback''"

subsection \<open>Listening for notifications\<close>

text \<open>
  The generators \<^verbatim>\<open>Connection.notifies\<close> and \<^verbatim>\<open>AsyncConnection.notifies\<close> loop
  for ever; \<open>notifies_round\<close> is one pass of the loop body: under the guard,
  \<^verbatim>\<open>ns = wait(notifies(pgconn))\<close>; then each element is decoded and yielded in turn.
  The value is the records yielded in this pass and the exception that ended it, if any.
\<close>

fun yield_notifies :: "env \<Rightarrow> str \<Rightarrow> PGnotify list \<Rightarrow> Notify list \<times> error option" where
  "yield_notifies E enc [] = ([], None)"
| "yield_notifies E enc (pgn # ns) =
     (case decode E enc (relname pgn) of
        Inl ex \<Rightarrow> ([], Some ex)
      | Inr ch \<Rightarrow>
          (case decode E enc (extra pgn) of
             Inl ex \<Rightarrow> ([], Some ex)
           | Inr pl \<Rightarrow>
               (Notify ch pl (be_pid pgn) # fst (yield_notifies E enc ns),
                snd (yield_notifies E enc ns))))"

definition Connection_notifies_round ::
  "env \<Rightarrow> connection \<Rightarrow> (Notify list \<times> error option) \<times> connection" where
  "Connection_notifies_round E self =
     (case wait_notifies E (pgconn self) of
        (Inl ex, pg1) \<Rightarrow> (([], Some ex), self\<lparr>pgconn := pg1\<rparr>)
      | (Inr ns, pg1) \<Rightarrow> (yield_notifies E (priv_pyenc self) ns, self\<lparr>pgconn := pg1\<rparr>))"

definition AsyncConnection_notifies_round ::
  "env \<Rightarrow> connection \<Rightarrow> (Notify list \<times> error option) \<times> connection" where
  "AsyncConnection_notifies_round E self =
     (case wait_notifies E (pgconn self) of
        (Inl ex, pg1) \<Rightarrow> (([], Some ex), self\<lparr>pgconn := pg1\<rparr>)
      | (Inr ns, pg1) \<Rightarrow> (yield_notifies E (priv_pyenc self) ns, self\<lparr>pgconn := pg1\<rparr>))"

text \<open>
  The requests an operation made of the handle: what \<open>calls\<close> holds after it beyond what
  it held before.
\<close>

definition requests :: "connection \<Rightarrow> connection \<Rightarrow> call list" where
  "requests before after = drop (length (calls (pgconn before))) (calls (pgconn after))"

text \<open>
  The handle takes the command without raising and the wait that follows returns
  \<open>results\<close>.
\<close>

definition accepted :: "env \<Rightarrow> connection \<Rightarrow> bytes \<Rightarrow> PGresult list \<Rightarrow> bool" where
  "accepted E self command results \<longleftrightarrow>
     fst (send_query E (pgconn self) command) = None \<and>
     fst (wait_execute E (snd (send_query E (pgconn self) command))) = Inr results"

subsection \<open>Concrete handles and connections\<close>

text \<open>
  A codec that accepts exactly the ASCII bytes and returns them unchanged. On ASCII
  input Python's \<^verbatim>\<open>ascii\<close>, \<^verbatim>\<open>utf-8\<close> and \<^verbatim>\<open>latin-1\<close> codecs all do this, and
  \<^verbatim>\<open>ascii\<close> raises on any other byte. The concrete cases below decode and encode
  with the \<^verbatim>\<open>ascii\<close> codec or ASCII text only.
\<close>

definition ascii_codec :: "error \<Rightarrow> string \<Rightarrow> error + string" where
  "ascii_codec ex b = (if list_all (\<lambda>c. (of_char c :: nat) < 128) b then Inr b else Inl ex)"

text \<open>
  A stand-in for the handle and the imported functions: the codec above, a table with
  two encodings, the raw diagnostic as the error message, a handle that raises when a
  command is sent or notifications are waited for while its status is BAD, and \<open>rs\<close> as
  the results of every command.
\<close>

definition double :: "PGresult list \<Rightarrow> env" where
  "double rs =
     \<lparr>decode = (\<lambda>codec. ascii_codec UnicodeDecodeError),
      encode = (\<lambda>codec. ascii_codec UnicodeEncodeError),
      py_codecs = map_of [(''UTF8'', ''utf-8''), (''LATIN1'', ''iso8859-1'')],
      error_message = (\<lambda>res enc. result_message res),
      error_from_result = (\<lambda>res enc. OtherError (result_message res)),
      send_raises =
        (\<lambda>pg c. if status pg = BAD then Some (OtherError ''no connection to the server'')
                 else None),
      execute_reply = (\<lambda>pg. (Inr rs, pg)),
      notifies_reply =
        (\<lambda>pg. if status pg = BAD then (Inl (OtherError ''no connection to the server''), pg)
              else (Inr [PGnotify ''ch'' 123 ''hello''], pg))\<rparr>"

definition handle :: "ConnStatus \<Rightarrow> TransactionStatus \<Rightarrow> bytes option \<Rightarrow> pgconn" where
  "handle s t enc =
     \<lparr>status = s, transaction_status = t,
      parameter_status = (\<lambda>name. if name = ''client_encoding'' then enc else None),
      notice_handler = None, notify_handler = None,
      calls = []\<rparr>"

text \<open>
  A connection fresh from \<^verbatim>\<open>__init__\<close> on such a handle, at address 0, and two
  results.
\<close>

definition conn :: "ConnStatus \<Rightarrow> TransactionStatus \<Rightarrow> bytes option \<Rightarrow> connection" where
  "conn s t enc = BaseConnection_init 0 (handle s t enc)"

definition command_ok :: PGresult where
  "command_ok = PGresult COMMAND_OK []"

definition aborted :: PGresult where
  "aborted = PGresult FATAL_ERROR ''current transaction is aborted''"

text \<open>Two handlers: \<open>A\<close> raises, \<open>B\<close> returns.\<close>

definition handler_A :: "'a callback" where
  "handler_A = Callback ''A'' (\<lambda>x. Some (OtherError ''A failed''))"

definition handler_B :: "'a callback" where
  "handler_B = Callback ''B'' (\<lambda>x. None)"

section \<open>Properties\<close>

subsection \<open>The record of requests\<close>

lemma calls_send_query: "calls (snd (send_query E pg c)) = calls pg @ [SendQuery c]"
  by (simp add: send_query_def)

lemma calls_send_query_params:
  "calls (snd (send_query_params E pg c ps)) = calls pg @ [SendQueryParams c ps]"
  by (simp add: send_query_params_def)

lemma calls_wait_execute: "calls (snd (wait_execute E pg)) = calls pg @ [Execute]"
  by (simp add: wait_execute_def)

lemma calls_wait_notifies: "calls (snd (wait_notifies E pg)) = calls pg @ [Notifies]"
  by (simp add: wait_notifies_def)

lemma requests_same: "requests self self = []"
  by (simp add: requests_def)

lemma requests_append:
  "calls (pgconn after) = calls (pgconn before) @ cs \<Longrightarrow> requests before after = cs"
  by (simp add: requests_def)

subsection \<open>Autocommit\<close>

text \<open>
  Claim C3. On a connection whose transaction status is not IDLE, setting autocommit
  raises \<^verbatim>\<open>ProgrammingError\<close> and leaves the connection, and so the flag, as it was;
  on IDLE the assignment is made. This is \<^verbatim>\<open>BaseConnection._set_autocommit\<close>, and
  the two entry points that reach it: the property setter of the blocking variant and
  \<^verbatim>\<open>set_autocommit\<close> of the cooperative one.
\<close>

theorem set_autocommit_only_when_idle:
  "(transaction_status (pgconn self) \<noteq> IDLE \<longrightarrow>
      (\<exists>msg. BaseConnection_priv_set_autocommit self v = (Inl (ProgrammingError msg), self)) \<and>
      (\<exists>msg. Connection_priv_set_autocommit self v = (Inl (ProgrammingError msg), self)) \<and>
      (\<exists>msg. AsyncConnection_set_autocommit self v = (Inl (ProgrammingError msg), self))) \<and>
   (transaction_status (pgconn self) = IDLE \<longrightarrow>
      BaseConnection_priv_set_autocommit self v = (Inr (), self\<lparr>priv_autocommit := v\<rparr>) \<and>
      Connection_priv_set_autocommit self v = (Inr (), self\<lparr>priv_autocommit := v\<rparr>) \<and>
      AsyncConnection_set_autocommit self v = (Inr (), self\<lparr>priv_autocommit := v\<rparr>) \<and>
      BaseConnection_autocommit (self\<lparr>priv_autocommit := v\<rparr>) = v)"
  by (simp add: BaseConnection_priv_set_autocommit_def Connection_priv_set_autocommit_def
      AsyncConnection_set_autocommit_def BaseConnection_autocommit_def Let_def)

theorem set_autocommit_only_when_idle_witness:
  "transaction_status (pgconn (BaseConnection_init 0 (handle OK INTRANS None))) \<noteq> IDLE \<and>
   (\<exists>msg. Connection_priv_set_autocommit (BaseConnection_init 0 (handle OK INTRANS None)) True =
      (Inl (ProgrammingError msg), BaseConnection_init 0 (handle OK INTRANS None))) \<and>
   priv_autocommit (snd (Connection_priv_set_autocommit
      (BaseConnection_init 0 (handle OK INTRANS None)) True)) = False \<and>
   transaction_status (pgconn (BaseConnection_init 0 (handle OK IDLE None))) = IDLE \<and>
   priv_autocommit (snd (Connection_priv_set_autocommit
      (BaseConnection_init 0 (handle OK IDLE None)) True)) = True"
  using set_autocommit_only_when_idle [of "BaseConnection_init 0 (handle OK INTRANS None)" True]
    set_autocommit_only_when_idle [of "BaseConnection_init 0 (handle OK IDLE None)" True]
  by (auto simp add: BaseConnection_init_def handle_def)

subsection \<open>Starting a query\<close>

lemma start_query_skips:
  "priv_autocommit self \<or> transaction_status (pgconn self) \<noteq> IDLE \<Longrightarrow>
   Connection_priv_start_query E self = (Inr (), self)"
  by (auto simp add: Connection_priv_start_query_def)

lemma start_query_begins:
  "\<not> priv_autocommit self \<Longrightarrow> transaction_status (pgconn self) = IDLE \<Longrightarrow>
   \<exists>rest. requests self (snd (Connection_priv_start_query E self)) = SendQuery ''begin'' # rest"
  by (auto simp add: Connection_priv_start_query_def requests_def send_query_def wait_execute_def
      split: prod.splits option.splits sum.splits list.splits)

lemma async_start_query_same:
  "AsyncConnection_priv_start_query E self = Connection_priv_start_query E self"
  by (simp add: AsyncConnection_priv_start_query_def Connection_priv_start_query_def)

text \<open>
  Claim C4. \<^verbatim>\<open>_start_query\<close>, in both variants, requests \<^verbatim>\<open>begin\<close> of the handle
  if and only if autocommit is off and the transaction status is IDLE; in every other
  case it returns without an exception and leaves the connection, handle included, as it
  was.
\<close>

theorem start_query_sends_begin_iff:
  "(SendQuery ''begin'' \<in> set (requests self (snd (Connection_priv_start_query E self)))
      \<longleftrightarrow> \<not> priv_autocommit self \<and> transaction_status (pgconn self) = IDLE) \<and>
   (SendQuery ''begin'' \<in> set (requests self (snd (AsyncConnection_priv_start_query E self)))
      \<longleftrightarrow> \<not> priv_autocommit self \<and> transaction_status (pgconn self) = IDLE) \<and>
   (\<not> (\<not> priv_autocommit self \<and> transaction_status (pgconn self) = IDLE) \<longrightarrow>
      Connection_priv_start_query E self = (Inr (), self) \<and>
      AsyncConnection_priv_start_query E self = (Inr (), self))"
proof -
  let ?go = "\<not> priv_autocommit self \<and> transaction_status (pgconn self) = IDLE"
  have skip: "\<not> ?go \<Longrightarrow> Connection_priv_start_query E self = (Inr (), self)"
    using start_query_skips [of self E] by blast
  have sync: "SendQuery ''begin'' \<in> set (requests self (snd (Connection_priv_start_query E self)))
      \<longleftrightarrow> ?go"
  proof (cases ?go)
    case True
    then obtain rest where
      "requests self (snd (Connection_priv_start_query E self)) = SendQuery ''begin'' # rest"
      using start_query_begins [of self E] by blast
    with True show ?thesis by simp
  next
    case False
    then show ?thesis using skip by (simp add: requests_same)
  qed
  show ?thesis using sync skip by (simp add: async_start_query_same)
qed

theorem start_query_sends_begin_iff_witness:
  "\<not> priv_autocommit (BaseConnection_init 0 (handle OK IDLE None)) \<and>
   transaction_status (pgconn (BaseConnection_init 0 (handle OK IDLE None))) = IDLE \<and>
   SendQuery ''begin'' \<in> set (requests (BaseConnection_init 0 (handle OK IDLE None))
     (snd (Connection_priv_start_query (double [command_ok])
        (BaseConnection_init 0 (handle OK IDLE None))))) \<and>
   transaction_status (pgconn (BaseConnection_init 0 (handle OK INTRANS None))) \<noteq> IDLE \<and>
   Connection_priv_start_query (double [command_ok])
      (BaseConnection_init 0 (handle OK INTRANS None)) =
     (Inr (), BaseConnection_init 0 (handle OK INTRANS None))"
  using start_query_sends_begin_iff [of "BaseConnection_init 0 (handle OK IDLE None)"
      "double [command_ok]"]
    start_query_sends_begin_iff [of "BaseConnection_init 0 (handle OK INTRANS None)"
      "double [command_ok]"]
  by (simp add: BaseConnection_init_def handle_def)

subsection \<open>The property setters of the cooperative variant\<close>

lemma autocommit_read_only_directs:
  "sublist ''await connection.set_autocommit()'' autocommit_read_only"
proof -
  have eq: "autocommit_read_only =
      ''autocommit is read-only on async connections: please use ''
        @ ''await connection.set_autocommit()''
        @ '' instead. Note that you can pass an 'autocommit' value to 'connect()' if it doesn't need to change during the connection's lifetime.''"
    by (simp add: autocommit_read_only_def)
  show ?thesis
    unfolding eq by (rule sublist_appendI)
qed

lemma client_encoding_read_only_directs:
  "sublist ''await .set_client_encoding()'' client_encoding_read_only"
proof -
  have eq: "client_encoding_read_only =
      '''client_encoding' is read-only on async connections: please use ''
        @ ''await .set_client_encoding()'' @ '' instead.''"
    by (simp add: client_encoding_read_only_def)
  show ?thesis
    unfolding eq by (rule sublist_appendI)
qed

text \<open>
  Claim C8. On the cooperative variant the methods behind the two property setters,
  \<^verbatim>\<open>_set_autocommit\<close> and \<^verbatim>\<open>_set_client_encoding\<close>, raise at once, whatever the
  state and the value: the exception is \<^verbatim>\<open>AttributeError\<close> (a failure of the caller,
  who used an operation this execution model does not support), its message names the
  awaitable setter to use instead, no request is made of the handle and the connection
  is left as it was.
\<close>

theorem async_property_setters_rejected:
  "AsyncConnection_priv_set_autocommit self v = (Inl (AttributeError autocommit_read_only), self) \<and>
   sublist ''await connection.set_autocommit()'' autocommit_read_only \<and>
   AsyncConnection_priv_set_client_encoding self enc =
     (Inl (AttributeError client_encoding_read_only), self) \<and>
   sublist ''await .set_client_encoding()'' client_encoding_read_only \<and>
   requests self (snd (AsyncConnection_priv_set_autocommit self v)) = [] \<and>
   requests self (snd (AsyncConnection_priv_set_client_encoding self enc)) = []"
  by (simp add: AsyncConnection_priv_set_autocommit_def
      AsyncConnection_priv_set_client_encoding_def requests_same
      autocommit_read_only_directs client_encoding_read_only_directs)

subsection \<open>Dispatch to the registered handlers\<close>

lemma notice_loop_effects:
  "notice_loop cbs diag fx =
     fx\<lparr>invoked := invoked fx @ map (\<lambda>cb. (cb_name cb, diag)) cbs,
        logged := logged fx @
          concat (map (\<lambda>cb. case cb_call cb diag of None \<Rightarrow> [] | Some ex \<Rightarrow> [(cb_name cb, ex)]) cbs)\<rparr>"
  by (induction cbs arbitrary: fx) (auto split: option.splits)

text \<open>
  Notice dispatch on a live connection: no exception leaves it, every registered handler
  is called, in the order of registration, and each handler that raised is logged.
\<close>

lemma notice_dispatch_isolated:
  "raised (BaseConnection_priv_notice_handler (Some self) res) = None \<and>
   invoked (BaseConnection_priv_notice_handler (Some self) res) =
     map (\<lambda>cb. (cb_name cb, Diagnostic res (priv_pyenc self))) (priv_notice_handlers self) \<and>
   logged (BaseConnection_priv_notice_handler (Some self) res) =
     concat (map (\<lambda>cb. case cb_call cb (Diagnostic res (priv_pyenc self)) of
                          None \<Rightarrow> [] | Some ex \<Rightarrow> [(cb_name cb, ex)])
                 (priv_notice_handlers self))"
  by (simp add: BaseConnection_priv_notice_handler_def notice_loop_effects quiet_def)

lemma notice_dispatch_goes_on_after_failure:
  "BaseConnection_priv_notice_handler
     (Some (BaseConnection_add_notice_handler
        (BaseConnection_add_notice_handler (conn OK IDLE None) handler_A) handler_B))
     (PGresult NONFATAL_ERROR ''warning'') =
   \<lparr>raised = None,
    invoked = [(''A'', Diagnostic (PGresult NONFATAL_ERROR ''warning'') ''utf-8''),
               (''B'', Diagnostic (PGresult NONFATAL_ERROR ''warning'') ''utf-8'')],
    logged = [(''A'', OtherError ''A failed'')]\<rparr>"
  by (simp add: BaseConnection_priv_notice_handler_def BaseConnection_add_notice_handler_def
      conn_def BaseConnection_init_def quiet_def handler_A_def handler_B_def)

text \<open>
  Notification dispatch runs through the handlers only as long as they return: the first
  handler that raises ends the loop, and its exception leaves the callback.
\<close>

lemma notify_loop_all_return:
  "list_all (\<lambda>cb. cb_call cb n = None) cbs \<Longrightarrow>
   notify_loop cbs n fx = fx\<lparr>invoked := invoked fx @ map (\<lambda>cb. (cb_name cb, n)) cbs\<rparr>"
  by (induction cbs arbitrary: fx) auto

lemma notify_loop_first_failure:
  "list_all (\<lambda>cb. cb_call cb n = None) before \<Longrightarrow> cb_call cb n = Some ex \<Longrightarrow>
   notify_loop (before @ cb # after) n fx =
     fx\<lparr>invoked := invoked fx @ map (\<lambda>cb. (cb_name cb, n)) (before @ [cb]),
        raised := Some ex\<rparr>"
  by (induction before arbitrary: fx) auto

text \<open>
  Claim C1. Both dispatchers call every registered handler in order and keep a handler's
  exception to themselves. \<^verbatim>\<open>_notice_handler\<close> does (the two lemmas above);
  \<^verbatim>\<open>_notify_handler\<close> calls its handlers with no \<^verbatim>\<open>try\<close> around the call. With the
  handlers \<open>A\<close>, which raises, and \<open>B\<close> registered in this order and the notification
  \<^verbatim>\<open>(b"ch", 123, b"hello")\<close> delivered, \<open>A\<close> is called, its exception leaves the
  callback into the protocol step that delivered the notification, nothing is logged and
  \<open>B\<close> is never called.
\<close>

theorem notify_dispatch_stops_at_failure:
  "BaseConnection_priv_notify_handler (double [])
     (Some (BaseConnection_add_notify_handler
        (BaseConnection_add_notify_handler (conn OK IDLE None) handler_A) handler_B))
     (PGnotify ''ch'' 123 ''hello'') =
   \<lparr>raised = Some (OtherError ''A failed''),
    invoked = [(''A'', Notify ''ch'' ''hello'' 123)],
    logged = []\<rparr>"
  by (simp add: BaseConnection_priv_notify_handler_def BaseConnection_add_notify_handler_def
      conn_def BaseConnection_init_def double_def ascii_codec_def quiet_def handler_A_def
      handler_B_def)

text \<open>
  A connection made by \<^verbatim>\<open>__init__\<close> is referred to by the callbacks of its handle
  weakly only, so the handle keeps no connection alive.
\<close>

lemma init_installs_weak_callbacks:
  "notice_handler (pgconn (BaseConnection_init a pg)) = Some (WeakRef a) \<and>
   notify_handler (pgconn (BaseConnection_init a pg)) = Some (WeakRef a) \<and>
   kept_alive_by (pgconn (BaseConnection_init a pg)) = []"
  by (simp add: BaseConnection_init_def kept_alive_by_def)

lemma after_release_of_init:
  "after_release (pgconn (BaseConnection_init a pg)) h b = None"
  by (simp add: after_release_def collect_def init_installs_weak_callbacks)

text \<open>
  Claim C7. A handle-level callback whose weak reference no longer resolves, or whose
  connection has no handler of its kind registered, calls no handler, raises nothing and
  logs nothing. The callbacks that \<^verbatim>\<open>__init__\<close> stores in the handle hold a weak
  reference to the connection and no strong one: while the connection exists they
  dispatch to it; the handle does not keep it alive, so once its holder lets go of it the
  connection is collected although the handle lives on, and the callbacks then do
  nothing.
\<close>

theorem dispatch_without_connection_or_handlers:
  "BaseConnection_priv_notice_handler None res = \<lparr>raised = None, invoked = [], logged = []\<rparr> \<and>
   BaseConnection_priv_notify_handler E None pgn = \<lparr>raised = None, invoked = [], logged = []\<rparr> \<and>
   (priv_notice_handlers self = [] \<longrightarrow>
      BaseConnection_priv_notice_handler (Some self) res =
        \<lparr>raised = None, invoked = [], logged = []\<rparr>) \<and>
   (priv_notify_handlers self = [] \<longrightarrow>
      BaseConnection_priv_notify_handler E (Some self) pgn =
        \<lparr>raised = None, invoked = [], logged = []\<rparr>) \<and>
   notice_handler (pgconn (BaseConnection_init a pg)) = Some (WeakRef a) \<and>
   notify_handler (pgconn (BaseConnection_init a pg)) = Some (WeakRef a) \<and>
   kept_alive_by (pgconn (BaseConnection_init a pg)) = [] \<and>
   (h a = Some self \<longrightarrow>
      call_notice_handler h (pgconn (BaseConnection_init a pg)) res =
        BaseConnection_priv_notice_handler (Some self) res \<and>
      call_notify_handler E h (pgconn (BaseConnection_init a pg)) pgn =
        BaseConnection_priv_notify_handler E (Some self) pgn) \<and>
   after_release (pgconn (BaseConnection_init a pg)) h a = None \<and>
   call_notice_handler (after_release (pgconn (BaseConnection_init a pg)) h)
       (pgconn (BaseConnection_init a pg)) res =
     \<lparr>raised = None, invoked = [], logged = []\<rparr> \<and>
   call_notify_handler E (after_release (pgconn (BaseConnection_init a pg)) h)
       (pgconn (BaseConnection_init a pg)) pgn =
     \<lparr>raised = None, invoked = [], logged = []\<rparr>"
proof -
  have guards:
    "BaseConnection_priv_notice_handler None res = \<lparr>raised = None, invoked = [], logged = []\<rparr>"
    "BaseConnection_priv_notify_handler E None pgn = \<lparr>raised = None, invoked = [], logged = []\<rparr>"
    "priv_notice_handlers self = [] \<longrightarrow>
      BaseConnection_priv_notice_handler (Some self) res =
        \<lparr>raised = None, invoked = [], logged = []\<rparr>"
    "priv_notify_handlers self = [] \<longrightarrow>
      BaseConnection_priv_notify_handler E (Some self) pgn =
        \<lparr>raised = None, invoked = [], logged = []\<rparr>"
    by (simp_all add: BaseConnection_priv_notice_handler_def
        BaseConnection_priv_notify_handler_def quiet_def)
  have live: "h a = Some self \<longrightarrow>
      call_notice_handler h (pgconn (BaseConnection_init a pg)) res =
        BaseConnection_priv_notice_handler (Some self) res \<and>
      call_notify_handler E h (pgconn (BaseConnection_init a pg)) pgn =
        BaseConnection_priv_notify_handler E (Some self) pgn"
    by (simp add: call_notice_handler_def call_notify_handler_def resolve_def
        init_installs_weak_callbacks)
  have gone:
    "call_notice_handler (after_release (pgconn (BaseConnection_init a pg)) h)
       (pgconn (BaseConnection_init a pg)) res =
     \<lparr>raised = None, invoked = [], logged = []\<rparr>"
    "call_notify_handler E (after_release (pgconn (BaseConnection_init a pg)) h)
       (pgconn (BaseConnection_init a pg)) pgn =
     \<lparr>raised = None, invoked = [], logged = []\<rparr>"
    by (simp_all add: call_notice_handler_def call_notify_handler_def resolve_def
        init_installs_weak_callbacks after_release_of_init guards)
  show ?thesis
    using guards live gone init_installs_weak_callbacks [of a pg]
      after_release_of_init [of a pg h a]
    by blast
qed

text \<open>
  The same at a connection at address 0 that has one notice handler registered: while it
  is on the heap a notice reaches the handler; after its holder has let go of it, the
  heap no longer has it and the notice reaches nobody.
\<close>

theorem dispatch_without_connection_or_handlers_witness:
  "priv_notice_handlers (conn OK IDLE None) = [] \<and>
   priv_notify_handlers (conn OK IDLE None) = [] \<and>
   BaseConnection_priv_notice_handler (Some (conn OK IDLE None))
     (PGresult NONFATAL_ERROR ''warning'') = \<lparr>raised = None, invoked = [], logged = []\<rparr> \<and>
   BaseConnection_priv_notify_handler (double []) (Some (conn OK IDLE None))
     (PGnotify ''ch'' 123 ''hello'') = \<lparr>raised = None, invoked = [], logged = []\<rparr> \<and>
   (Map.empty(0 \<mapsto> BaseConnection_add_notice_handler (conn OK IDLE None) handler_B)) 0 =
     Some (BaseConnection_add_notice_handler (conn OK IDLE None) handler_B) \<and>
   call_notice_handler
     (Map.empty(0 \<mapsto> BaseConnection_add_notice_handler (conn OK IDLE None) handler_B))
     (pgconn (BaseConnection_init 0 (handle OK IDLE None)))
     (PGresult NONFATAL_ERROR ''warning'') =
     \<lparr>raised = None,
      invoked = [(''B'', Diagnostic (PGresult NONFATAL_ERROR ''warning'') ''utf-8'')],
      logged = []\<rparr> \<and>
   after_release (pgconn (BaseConnection_init 0 (handle OK IDLE None)))
     (Map.empty(0 \<mapsto> BaseConnection_add_notice_handler (conn OK IDLE None) handler_B)) 0 =
     None \<and>
   call_notice_handler
     (after_release (pgconn (BaseConnection_init 0 (handle OK IDLE None)))
        (Map.empty(0 \<mapsto> BaseConnection_add_notice_handler (conn OK IDLE None) handler_B)))
     (pgconn (BaseConnection_init 0 (handle OK IDLE None)))
     (PGresult NONFATAL_ERROR ''warning'') = \<lparr>raised = None, invoked = [], logged = []\<rparr>"
proof -
  have live: "BaseConnection_priv_notice_handler
      (Some (BaseConnection_add_notice_handler (conn OK IDLE None) handler_B))
      (PGresult NONFATAL_ERROR ''warning'') =
     \<lparr>raised = None,
      invoked = [(''B'', Diagnostic (PGresult NONFATAL_ERROR ''warning'') ''utf-8'')],
      logged = []\<rparr>"
    by (simp add: BaseConnection_priv_notice_handler_def BaseConnection_add_notice_handler_def
        conn_def BaseConnection_init_def quiet_def handler_B_def)
  have empty: "priv_notice_handlers (conn OK IDLE None) = []"
    "priv_notify_handlers (conn OK IDLE None) = []"
    by (simp_all add: conn_def BaseConnection_init_def)
  show ?thesis
    using dispatch_without_connection_or_handlers [of "PGresult NONFATAL_ERROR ''warning''"
        "double []" "PGnotify ''ch'' 123 ''hello''" "conn OK IDLE None" 0 "handle OK IDLE None"
        "Map.empty(0 \<mapsto> BaseConnection_add_notice_handler (conn OK IDLE None) handler_B)"]
      dispatch_without_connection_or_handlers [of "PGresult NONFATAL_ERROR ''warning''"
        "double []" "PGnotify ''ch'' 123 ''hello''"
        "BaseConnection_add_notice_handler (conn OK IDLE None) handler_B" 0
        "handle OK IDLE None"
        "Map.empty(0 \<mapsto> BaseConnection_add_notice_handler (conn OK IDLE None) handler_B)"]
      live empty
    by simp
qed

subsection \<open>Commit and rollback\<close>

lemmas fixtures = conn_def BaseConnection_init_def handle_def double_def ascii_codec_def
  command_ok_def aborted_def

lemmas exec_defs = Connection_commit_def Connection_rollback_def AsyncConnection_commit_def
  AsyncConnection_rollback_def Connection_priv_exec_commit_rollback_def
  AsyncConnection_priv_exec_commit_rollback_def commit_rollback_failure_def
  send_query_def wait_execute_def accepted_def requests_def

lemma exec_commit_rollback_idle:
  "transaction_status (pgconn self) = IDLE \<Longrightarrow>
   Connection_priv_exec_commit_rollback E self command = (Inr (), self) \<and>
   AsyncConnection_priv_exec_commit_rollback E self command = (Inr (), self)"
  by (simp add: Connection_priv_exec_commit_rollback_def
      AsyncConnection_priv_exec_commit_rollback_def)

text \<open>The two variants leave the same connection, with the same requests made.\<close>

lemma exec_commit_rollback_same_connection:
  "snd (Connection_priv_exec_commit_rollback E self command) =
   snd (AsyncConnection_priv_exec_commit_rollback E self command)"
  by (simp add: Connection_priv_exec_commit_rollback_def
      AsyncConnection_priv_exec_commit_rollback_def
      split: prod.splits option.splits sum.splits list.splits)

lemma exec_commit_rollback_sends:
  "transaction_status (pgconn self) \<noteq> IDLE \<Longrightarrow>
   \<exists>rest. requests self (snd (Connection_priv_exec_commit_rollback E self command)) =
     SendQuery command # rest"
  by (auto simp add: Connection_priv_exec_commit_rollback_def requests_def send_query_def
      wait_execute_def split: prod.splits option.splits sum.splits)

text \<open>Once the handle has taken the command and returned results, they decide.\<close>

lemma exec_commit_rollback_accepted:
  assumes "transaction_status (pgconn self) \<noteq> IDLE" and "accepted E self command results"
  shows "requests self (snd (Connection_priv_exec_commit_rollback E self command)) =
           [SendQuery command, Execute]"
    and "fst (Connection_priv_exec_commit_rollback E self command) =
           (if results = [] then Inl IndexError
            else if result_status (last results) \<noteq> COMMAND_OK
              then Inl (commit_rollback_failure E command (last results) (priv_pyenc self))
              else Inr ())"
    and "fst (AsyncConnection_priv_exec_commit_rollback E self command) =
           (case results of
              [pgres] \<Rightarrow>
                if result_status pgres \<noteq> COMMAND_OK
                then Inl (commit_rollback_failure E command pgres (priv_pyenc self))
                else Inr ()
            | _ \<Rightarrow> Inl ValueError)"
  using assms
  by (auto simp add: Connection_priv_exec_commit_rollback_def
      AsyncConnection_priv_exec_commit_rollback_def accepted_def requests_def send_query_def
      wait_execute_def split: prod.splits option.splits sum.splits list.splits)

lemma exec_commit_rollback_agree:
  assumes "transaction_status (pgconn self) = IDLE \<or>
           (\<forall>results. accepted E self command results \<longrightarrow> length results = 1)"
  shows "Connection_priv_exec_commit_rollback E self command =
         AsyncConnection_priv_exec_commit_rollback E self command"
proof (cases "transaction_status (pgconn self) = IDLE")
  case True
  then show ?thesis using exec_commit_rollback_idle [of self E command] by simp
next
  case False
  with assms have single: "\<And>results. accepted E self command results \<Longrightarrow> length results = 1"
    by blast
  show ?thesis
  proof (cases "\<exists>results. accepted E self command results")
    case True
    then obtain results where acc: "accepted E self command results" by blast
    then have "length results = 1" by (rule single)
    then obtain res where res: "results = [res]"
      by (cases results) auto
    have "fst (Connection_priv_exec_commit_rollback E self command) =
          fst (AsyncConnection_priv_exec_commit_rollback E self command)"
      using exec_commit_rollback_accepted(2,3) [OF False acc] res by simp
    then show ?thesis
      using exec_commit_rollback_same_connection [of E self command]
      by (simp add: prod_eq_iff)
  next
    case none: False
    then show ?thesis using False
      by (auto simp add: Connection_priv_exec_commit_rollback_def
          AsyncConnection_priv_exec_commit_rollback_def accepted_def
          split: prod.splits option.splits sum.splits)
  qed
qed

text \<open>An exception the handle raises, on the command or during the wait, is the outcome.\<close>

lemma exec_commit_rollback_send_raises:
  assumes "transaction_status (pgconn self) \<noteq> IDLE"
    and "send_raises E (pgconn self) (SendQuery command) = Some ex"
  shows "fst (Connection_priv_exec_commit_rollback E self command) = Inl ex"
    and "fst (AsyncConnection_priv_exec_commit_rollback E self command) = Inl ex"
    and "requests self (snd (Connection_priv_exec_commit_rollback E self command)) =
           [SendQuery command]"
    and "requests self (snd (AsyncConnection_priv_exec_commit_rollback E self command)) =
           [SendQuery command]"
  using assms
  by (simp_all add: Connection_priv_exec_commit_rollback_def
      AsyncConnection_priv_exec_commit_rollback_def requests_def send_query_def)

lemma exec_commit_rollback_wait_raises:
  assumes "transaction_status (pgconn self) \<noteq> IDLE"
    and "fst (send_query E (pgconn self) command) = None"
    and "fst (wait_execute E (snd (send_query E (pgconn self) command))) = Inl ex"
  shows "fst (Connection_priv_exec_commit_rollback E self command) = Inl ex"
    and "fst (AsyncConnection_priv_exec_commit_rollback E self command) = Inl ex"
  using assms
  by (auto simp add: Connection_priv_exec_commit_rollback_def
      AsyncConnection_priv_exec_commit_rollback_def split: prod.splits option.splits sum.splits)

text \<open>
  The blocking variant does what is asked of \<^verbatim>\<open>commit\<close> and \<^verbatim>\<open>rollback\<close>: with
  results returned, of which there is at least one, it raises \<^verbatim>\<open>OperationalError\<close>
  with the diagnostic of the last result exactly when the status of the last result is not
  COMMAND_OK, and returns otherwise.
\<close>

lemma blocking_commit_rollback_terminal_result:
  assumes "transaction_status (pgconn self) \<noteq> IDLE" and "accepted E self command results"
    and "results \<noteq> []" and "decode E ''utf8'' command = Inr name"
  shows "fst (Connection_priv_exec_commit_rollback E self command) =
           (if result_status (last results) \<noteq> COMMAND_OK
            then Inl (OperationalError (''error on '' @ name @ '': ''
                   @ error_message E (last results) (priv_pyenc self)))
            else Inr ())"
  using exec_commit_rollback_accepted(2) [OF assms(1,2)] assms(3,4)
  by (simp add: commit_rollback_failure_def)

text \<open>
  Claim C2. \<^verbatim>\<open>commit\<close> and \<^verbatim>\<open>rollback\<close>, on a transaction status other than
  IDLE, send their command, wait, and raise \<^verbatim>\<open>OperationalError\<close> with the server's
  diagnostic when the status of the terminal result is not COMMAND_OK. The blocking
  variant does (lemma above); the cooperative variant unpacks exactly one result. With
  the handle returning two results for \<^verbatim>\<open>commit\<close>, a success and then the failure
  \<^verbatim>\<open>current transaction is aborted\<close>, the blocking variant raises the
  \<^verbatim>\<open>OperationalError\<close> with that text and the cooperative variant raises
  \<^verbatim>\<open>ValueError\<close> from the unpacking, without a word of the diagnostic.
\<close>

theorem cooperative_commit_two_results:
  "transaction_status (pgconn (conn OK INERROR None)) \<noteq> IDLE \<and>
   accepted (double [command_ok, aborted]) (conn OK INERROR None) ''commit''
     [command_ok, aborted] \<and>
   result_status (last [command_ok, aborted]) \<noteq> COMMAND_OK \<and>
   fst (Connection_commit (double [command_ok, aborted]) (conn OK INERROR None)) =
     Inl (OperationalError ''error on commit: current transaction is aborted'') \<and>
   fst (AsyncConnection_commit (double [command_ok, aborted]) (conn OK INERROR None)) =
     Inl ValueError"
  by (simp add: fixtures exec_defs)

text \<open>
  Claim C9. The two variants of \<^verbatim>\<open>commit\<close> and \<^verbatim>\<open>rollback\<close> are to do the same
  for the same transaction status and the same results of the handle. They make the same
  requests and leave the same connection, and they return or raise the same as long as
  the handle returns one result (lemmas \<open>exec_commit_rollback_same_connection\<close> and
  \<open>exec_commit_rollback_agree\<close>). They part on what result decides: the blocking
  variant reads the last one, the cooperative variant takes one only. With the handle
  returning a failure and then a success for \<^verbatim>\<open>commit\<close>, the blocking variant returns
  and the cooperative variant raises \<^verbatim>\<open>ValueError\<close>.
\<close>

theorem variants_disagree_on_two_results:
  "transaction_status (pgconn (conn OK INTRANS None)) \<noteq> IDLE \<and>
   accepted (double [aborted, command_ok]) (conn OK INTRANS None) ''commit''
     [aborted, command_ok] \<and>
   fst (Connection_commit (double [aborted, command_ok]) (conn OK INTRANS None)) = Inr () \<and>
   fst (AsyncConnection_commit (double [aborted, command_ok]) (conn OK INTRANS None)) =
     Inl ValueError"
  by (simp add: fixtures exec_defs)

subsection \<open>Operations on a closed connection\<close>

lemma set_client_encoding_requests:
  "encode E ''ascii'' v = Inr param \<Longrightarrow>
   \<exists>rest. requests self (snd (Connection_priv_set_client_encoding E self v)) =
     SendQueryParams set_config_command [param] # rest"
  by (auto simp add: Connection_priv_set_client_encoding_def requests_def send_query_params_def
      wait_execute_def split: prod.splits option.splits sum.splits list.splits)

lemma async_set_client_encoding_same:
  "AsyncConnection_set_client_encoding E self v = Connection_priv_set_client_encoding E self v"
  by (simp add: AsyncConnection_set_client_encoding_def Connection_priv_set_client_encoding_def)

lemma notifies_round_requests:
  "requests self (snd (Connection_notifies_round E self)) = [Notifies]"
  by (auto simp add: Connection_notifies_round_def requests_def wait_notifies_def
      split: prod.splits sum.splits)

lemma async_notifies_round_same:
  "AsyncConnection_notifies_round E self = Connection_notifies_round E self"
  by (simp add: AsyncConnection_notifies_round_def Connection_notifies_round_def)

lemma set_client_encoding_send_raises:
  assumes "encode E ''ascii'' v = Inr param"
    and "send_raises E (pgconn self) (SendQueryParams set_config_command [param]) = Some ex"
  shows "fst (Connection_priv_set_client_encoding E self v) = Inl ex"
    and "requests self (snd (Connection_priv_set_client_encoding E self v)) =
           [SendQueryParams set_config_command [param]]"
  using assms
  by (simp_all add: Connection_priv_set_client_encoding_def requests_def send_query_params_def)

lemma notifies_round_raises:
  "fst (notifies_reply E (pgconn self)) = Inl ex \<Longrightarrow>
   fst (Connection_notifies_round E self) = ([], Some ex)"
  by (simp add: Connection_notifies_round_def wait_notifies_def split: prod.splits)

text \<open>
  Claim C5, as the code has it. No operation of the module reads the connection status.
  On a connection whose status is BAD (\<^verbatim>\<open>closed\<close> is true) and whose transaction
  status is not IDLE (a handle that is gone reports UNKNOWN), \<^verbatim>\<open>commit\<close> and
  \<^verbatim>\<open>rollback\<close> hand their command to the handle; \<^verbatim>\<open>_start_query\<close> returns without
  an exception and without a request; setting the client encoding, once the value encodes
  as ASCII, hands its command to the handle; a round of \<^verbatim>\<open>notifies\<close> waits on the
  handle. When the handle raises on that request, its exception is what the operation
  raises, and no other request is made.
\<close>

theorem closed_connection_still_requests:
  assumes "BaseConnection_closed self" and "transaction_status (pgconn self) \<noteq> IDLE"
  shows
    "(\<exists>rest. requests self (snd (Connection_commit E self)) = SendQuery ''commit'' # rest) \<and>
     (\<exists>rest. requests self (snd (Connection_rollback E self)) = SendQuery ''rollback'' # rest) \<and>
     (\<exists>rest. requests self (snd (AsyncConnection_commit E self)) = SendQuery ''commit'' # rest) \<and>
     (\<exists>rest. requests self (snd (AsyncConnection_rollback E self)) =
        SendQuery ''rollback'' # rest) \<and>
     (send_raises E (pgconn self) (SendQuery ''commit'') = Some ex \<longrightarrow>
        fst (Connection_commit E self) = Inl ex \<and>
        fst (AsyncConnection_commit E self) = Inl ex \<and>
        requests self (snd (Connection_commit E self)) = [SendQuery ''commit''] \<and>
        requests self (snd (AsyncConnection_commit E self)) = [SendQuery ''commit'']) \<and>
     (send_raises E (pgconn self) (SendQuery ''rollback'') = Some ex \<longrightarrow>
        fst (Connection_rollback E self) = Inl ex \<and>
        fst (AsyncConnection_rollback E self) = Inl ex \<and>
        requests self (snd (Connection_rollback E self)) = [SendQuery ''rollback''] \<and>
        requests self (snd (AsyncConnection_rollback E self)) = [SendQuery ''rollback'']) \<and>
     Connection_priv_start_query E self = (Inr (), self) \<and>
     AsyncConnection_priv_start_query E self = (Inr (), self) \<and>
     (encode E ''ascii'' v = Inr param \<longrightarrow>
        (\<exists>rest. requests self (snd (Connection_priv_set_client_encoding E self v)) =
           SendQueryParams set_config_command [param] # rest) \<and>
        (\<exists>rest. requests self (snd (AsyncConnection_set_client_encoding E self v)) =
           SendQueryParams set_config_command [param] # rest)) \<and>
     (encode E ''ascii'' v = Inr param \<and>
      send_raises E (pgconn self) (SendQueryParams set_config_command [param]) = Some ex \<longrightarrow>
        fst (Connection_priv_set_client_encoding E self v) = Inl ex \<and>
        fst (AsyncConnection_set_client_encoding E self v) = Inl ex \<and>
        requests self (snd (Connection_priv_set_client_encoding E self v)) =
          [SendQueryParams set_config_command [param]] \<and>
        requests self (snd (AsyncConnection_set_client_encoding E self v)) =
          [SendQueryParams set_config_command [param]]) \<and>
     requests self (snd (Connection_notifies_round E self)) = [Notifies] \<and>
     requests self (snd (AsyncConnection_notifies_round E self)) = [Notifies] \<and>
     (fst (notifies_reply E (pgconn self)) = Inl ex \<longrightarrow>
        fst (Connection_notifies_round E self) = ([], Some ex) \<and>
        fst (AsyncConnection_notifies_round E self) = ([], Some ex))"
proof -
  note busy = assms(2)
  have sends:
    "\<exists>rest. requests self (snd (Connection_commit E self)) = SendQuery ''commit'' # rest"
    "\<exists>rest. requests self (snd (Connection_rollback E self)) = SendQuery ''rollback'' # rest"
    "\<exists>rest. requests self (snd (AsyncConnection_commit E self)) = SendQuery ''commit'' # rest"
    "\<exists>rest. requests self (snd (AsyncConnection_rollback E self)) = SendQuery ''rollback'' # rest"
    unfolding Connection_commit_def Connection_rollback_def AsyncConnection_commit_def
      AsyncConnection_rollback_def
    using exec_commit_rollback_sends [OF busy, of E]
    by (simp_all add: exec_commit_rollback_same_connection [symmetric])
  have commit_raises: "send_raises E (pgconn self) (SendQuery ''commit'') = Some ex \<longrightarrow>
        fst (Connection_commit E self) = Inl ex \<and>
        fst (AsyncConnection_commit E self) = Inl ex \<and>
        requests self (snd (Connection_commit E self)) = [SendQuery ''commit''] \<and>
        requests self (snd (AsyncConnection_commit E self)) = [SendQuery ''commit'']"
    unfolding Connection_commit_def AsyncConnection_commit_def
    using exec_commit_rollback_send_raises [OF busy, of E "''commit''" ex] by blast
  have rollback_raises: "send_raises E (pgconn self) (SendQuery ''rollback'') = Some ex \<longrightarrow>
        fst (Connection_rollback E self) = Inl ex \<and>
        fst (AsyncConnection_rollback E self) = Inl ex \<and>
        requests self (snd (Connection_rollback E self)) = [SendQuery ''rollback''] \<and>
        requests self (snd (AsyncConnection_rollback E self)) = [SendQuery ''rollback'']"
    unfolding Connection_rollback_def AsyncConnection_rollback_def
    using exec_commit_rollback_send_raises [OF busy, of E "''rollback''" ex] by blast
  have skips: "Connection_priv_start_query E self = (Inr (), self)"
    "AsyncConnection_priv_start_query E self = (Inr (), self)"
    using start_query_skips [of self E] busy by (simp_all add: async_start_query_same)
  have encoding: "encode E ''ascii'' v = Inr param \<longrightarrow>
        (\<exists>rest. requests self (snd (Connection_priv_set_client_encoding E self v)) =
           SendQueryParams set_config_command [param] # rest) \<and>
        (\<exists>rest. requests self (snd (AsyncConnection_set_client_encoding E self v)) =
           SendQueryParams set_config_command [param] # rest)"
    using set_client_encoding_requests [of E v param self]
    by (simp add: async_set_client_encoding_same)
  have encoding_raises: "encode E ''ascii'' v = Inr param \<and>
      send_raises E (pgconn self) (SendQueryParams set_config_command [param]) = Some ex \<longrightarrow>
        fst (Connection_priv_set_client_encoding E self v) = Inl ex \<and>
        fst (AsyncConnection_set_client_encoding E self v) = Inl ex \<and>
        requests self (snd (Connection_priv_set_client_encoding E self v)) =
          [SendQueryParams set_config_command [param]] \<and>
        requests self (snd (AsyncConnection_set_client_encoding E self v)) =
          [SendQueryParams set_config_command [param]]"
    using set_client_encoding_send_raises [of E v param self ex]
    by (simp add: async_set_client_encoding_same)
  have listens: "requests self (snd (Connection_notifies_round E self)) = [Notifies]"
    "requests self (snd (AsyncConnection_notifies_round E self)) = [Notifies]"
    by (simp_all add: async_notifies_round_same notifies_round_requests)
  have listen_raises: "fst (notifies_reply E (pgconn self)) = Inl ex \<longrightarrow>
        fst (Connection_notifies_round E self) = ([], Some ex) \<and>
        fst (AsyncConnection_notifies_round E self) = ([], Some ex)"
    using notifies_round_raises [of E self ex] by (simp add: async_notifies_round_same)
  show ?thesis
    using sends commit_raises rollback_raises skips encoding encoding_raises listens
      listen_raises
    by blast
qed

theorem closed_connection_still_requests_witness:
  "BaseConnection_closed (conn BAD UNKNOWN None) \<and>
   transaction_status (pgconn (conn BAD UNKNOWN None)) \<noteq> IDLE \<and>
   send_raises (double []) (pgconn (conn BAD UNKNOWN None)) (SendQuery ''rollback'') =
     Some (OtherError ''no connection to the server'') \<and>
   fst (Connection_rollback (double []) (conn BAD UNKNOWN None)) =
     Inl (OtherError ''no connection to the server'') \<and>
   requests (conn BAD UNKNOWN None)
     (snd (Connection_rollback (double []) (conn BAD UNKNOWN None))) = [SendQuery ''rollback''] \<and>
   fst (AsyncConnection_commit (double []) (conn BAD UNKNOWN None)) =
     Inl (OtherError ''no connection to the server'') \<and>
   Connection_priv_start_query (double []) (conn BAD UNKNOWN None) =
     (Inr (), conn BAD UNKNOWN None) \<and>
   encode (double []) ''ascii'' ''LATIN1'' = Inr ''LATIN1'' \<and>
   send_raises (double []) (pgconn (conn BAD UNKNOWN None))
     (SendQueryParams set_config_command [''LATIN1'']) =
     Some (OtherError ''no connection to the server'') \<and>
   fst (Connection_priv_set_client_encoding (double []) (conn BAD UNKNOWN None) ''LATIN1'') =
     Inl (OtherError ''no connection to the server'') \<and>
   requests (conn BAD UNKNOWN None)
     (snd (Connection_priv_set_client_encoding (double []) (conn BAD UNKNOWN None) ''LATIN1'')) =
     [SendQueryParams set_config_command [''LATIN1'']] \<and>
   fst (notifies_reply (double []) (pgconn (conn BAD UNKNOWN None))) =
     Inl (OtherError ''no connection to the server'') \<and>
   fst (Connection_notifies_round (double []) (conn BAD UNKNOWN None)) =
     ([], Some (OtherError ''no connection to the server'')) \<and>
   requests (conn BAD UNKNOWN None)
     (snd (Connection_notifies_round (double []) (conn BAD UNKNOWN None))) = [Notifies]"
proof -
  have closed: "BaseConnection_closed (conn BAD UNKNOWN None)"
    by (simp add: fixtures BaseConnection_closed_def BaseConnection_status_def)
  have busy: "transaction_status (pgconn (conn BAD UNKNOWN None)) \<noteq> IDLE"
    by (simp add: fixtures)
  have facts:
    "send_raises (double []) (pgconn (conn BAD UNKNOWN None)) (SendQuery ''rollback'') =
       Some (OtherError ''no connection to the server'')"
    "send_raises (double []) (pgconn (conn BAD UNKNOWN None)) (SendQuery ''commit'') =
       Some (OtherError ''no connection to the server'')"
    "encode (double []) ''ascii'' ''LATIN1'' = Inr ''LATIN1''"
    "send_raises (double []) (pgconn (conn BAD UNKNOWN None))
       (SendQueryParams set_config_command [''LATIN1'']) =
       Some (OtherError ''no connection to the server'')"
    "fst (notifies_reply (double []) (pgconn (conn BAD UNKNOWN None))) =
       Inl (OtherError ''no connection to the server'')"
    by (simp_all add: fixtures)
  show ?thesis
    using closed_connection_still_requests [OF closed busy, of "double []"
        "OtherError ''no connection to the server''" "''LATIN1''" "''LATIN1''"]
      closed busy facts
    by simp
qed

text \<open>
  Claim C5 as stated fails. On a closed connection, as the handle reports it once the
  connection is gone (status BAD, transaction status UNKNOWN), \<^verbatim>\<open>_start_query\<close>
  returns without any exception, and \<^verbatim>\<open>commit\<close> asks the handle to send its command;
  the exception that comes back is the handle's.
\<close>

theorem closed_connection_commit_requests:
  "BaseConnection_closed (conn BAD UNKNOWN None) \<and>
   Connection_priv_start_query (double []) (conn BAD UNKNOWN None) =
     (Inr (), conn BAD UNKNOWN None) \<and>
   fst (Connection_commit (double []) (conn BAD UNKNOWN None)) =
     Inl (OtherError ''no connection to the server'') \<and>
   requests (conn BAD UNKNOWN None) (snd (Connection_commit (double []) (conn BAD UNKNOWN None))) =
     [SendQuery ''commit'']"
  by (simp add: fixtures exec_defs BaseConnection_closed_def BaseConnection_status_def
      Connection_priv_start_query_def)

subsection \<open>The encoding cache\<close>

text \<open>
  What \<^verbatim>\<open>pyenc\<close> does, case by case. The raw value the server reports equals the
  cached one: the cached codec is returned and nothing changes. It differs and is empty
  (the handle reports nothing, or the empty value): the cached raw value becomes empty
  and the cached codec is returned as it is. It differs, is not empty and the table knows
  it: both halves of the cache are replaced. It differs, is not empty and the table does
  not know it: an exception is raised and the connection, cache included, is left as it
  was; the exception is \<^verbatim>\<open>NotSupportedError\<close> naming the encoding when the raw value
  decodes as ASCII, and the exception of the decoding otherwise.
\<close>

lemma pyenc_outcome:
  "BaseConnection_pyenc E self =
     (if or_empty (parameter_status (pgconn self) ''client_encoding'') = priv_pgenc self
      then (Inr (priv_pyenc self), self)
      else if or_empty (parameter_status (pgconn self) ''client_encoding'') = []
      then (Inr (priv_pyenc self), self\<lparr>priv_pgenc := []\<rparr>)
      else
        (case py_codecs E (or_empty (parameter_status (pgconn self) ''client_encoding'')) of
           Some codec \<Rightarrow>
             (Inr codec,
              self\<lparr>priv_pyenc := codec,
                   priv_pgenc := or_empty (parameter_status (pgconn self) ''client_encoding'')\<rparr>)
         | None \<Rightarrow>
             (case decode E ''ascii''
                     (or_empty (parameter_status (pgconn self) ''client_encoding'')) of
                Inl ex \<Rightarrow> (Inl ex, self)
              | Inr name \<Rightarrow>
                  (Inl (NotSupportedError (''encoding '' @ name @ '' not available in Python'')),
                   self))))"
  by (auto simp add: BaseConnection_pyenc_def Let_def split: option.splits sum.splits)

text \<open>
  With LATIN1 cached and the server reporting the name \<^verbatim>\<open>MULE_INTERNAL\<close>, which the
  table of the stand-in does not have, \<^verbatim>\<open>NotSupportedError\<close> is raised and the cache
  stays.
\<close>

lemma pyenc_unknown_ascii_name:
  "BaseConnection_pyenc (double [])
     ((conn OK IDLE (Some ''MULE_INTERNAL''))\<lparr>priv_pgenc := ''LATIN1'', priv_pyenc := ''iso8859-1''\<rparr>) =
   (Inl (NotSupportedError ''encoding MULE_INTERNAL not available in Python''),
    (conn OK IDLE (Some ''MULE_INTERNAL''))\<lparr>priv_pgenc := ''LATIN1'', priv_pyenc := ''iso8859-1''\<rparr>)"
  by (simp add: fixtures or_empty_def BaseConnection_pyenc_def)

text \<open>
  Claim C6. When the server reports a client encoding that has no local decoder,
  \<^verbatim>\<open>pyenc\<close> is to raise \<^verbatim>\<open>NotSupportedError\<close> and leave the cache in place, and the
  handler of the \<^verbatim>\<open>KeyError\<close> sets out to do so. It builds the message first, with
  \<^verbatim>\<open>pgenc.decode('ascii')\<close>: for the raw value \<^verbatim>\<open>b"\xff"\<close>, which the table does
  not know, that decoding raises \<^verbatim>\<open>UnicodeDecodeError\<close>, and this is the exception the
  caller gets in place of \<^verbatim>\<open>NotSupportedError\<close>. The cache is left as it was.
\<close>

theorem pyenc_non_ascii_name:
  "or_empty (parameter_status (pgconn (conn OK IDLE (Some [CHR 0xFF]))) ''client_encoding'') \<noteq>
     priv_pgenc (conn OK IDLE (Some [CHR 0xFF])) \<and>
   py_codecs (double []) [CHR 0xFF] = None \<and>
   BaseConnection_pyenc (double []) (conn OK IDLE (Some [CHR 0xFF])) =
     (Inl UnicodeDecodeError, conn OK IDLE (Some [CHR 0xFF]))"
  by (simp add: fixtures or_empty_def BaseConnection_pyenc_def)

text \<open>
  Claim C10, as the code has it. \<^verbatim>\<open>client_encoding\<close> returns \<^verbatim>\<open>"UTF8"\<close> when the
  handle reports no value and also when it reports the empty value; for any other value
  it is that value decoded as UTF-8 (the text, or the exception of the decoding).
\<close>

theorem client_encoding_value:
  "(parameter_status (pgconn self) ''client_encoding'' = None \<longrightarrow>
      BaseConnection_client_encoding E self = Inr ''UTF8'') \<and>
   (parameter_status (pgconn self) ''client_encoding'' = Some [] \<longrightarrow>
      BaseConnection_client_encoding E self = Inr ''UTF8'') \<and>
   (parameter_status (pgconn self) ''client_encoding'' = Some rv \<and> rv \<noteq> [] \<longrightarrow>
      BaseConnection_client_encoding E self = decode E ''utf-8'' rv)"
  by (simp add: BaseConnection_client_encoding_def)

theorem client_encoding_value_witness:
  "parameter_status (pgconn (conn OK IDLE None)) ''client_encoding'' = None \<and>
   BaseConnection_client_encoding (double []) (conn OK IDLE None) = Inr ''UTF8'' \<and>
   parameter_status (pgconn (conn OK IDLE (Some ''LATIN1''))) ''client_encoding'' =
     Some ''LATIN1'' \<and>
   BaseConnection_client_encoding (double []) (conn OK IDLE (Some ''LATIN1'')) = Inr ''LATIN1'' \<and>
   parameter_status (pgconn (conn OK IDLE (Some []))) ''client_encoding'' = Some [] \<and>
   BaseConnection_client_encoding (double []) (conn OK IDLE (Some [])) = Inr ''UTF8''"
proof -
  have facts:
    "parameter_status (pgconn (conn OK IDLE None)) ''client_encoding'' = None"
    "parameter_status (pgconn (conn OK IDLE (Some ''LATIN1''))) ''client_encoding'' =
       Some ''LATIN1''"
    "parameter_status (pgconn (conn OK IDLE (Some []))) ''client_encoding'' = Some []"
    "decode (double []) ''utf-8'' ''LATIN1'' = Inr ''LATIN1''"
    by (simp_all add: fixtures)
  show ?thesis
    using client_encoding_value [of "conn OK IDLE None" "double []" "''LATIN1''"]
      client_encoding_value [of "conn OK IDLE (Some ''LATIN1'')" "double []" "''LATIN1''"]
      client_encoding_value [of "conn OK IDLE (Some [])" "double []" "''LATIN1''"]
      facts
    by auto
qed

text \<open>
  Claim C10 as stated fails on the empty value: the handle reports a value, its decoding
  is the empty text, and the property returns \<^verbatim>\<open>"UTF8"\<close>.
\<close>

theorem client_encoding_empty_value:
  "parameter_status (pgconn (conn OK IDLE (Some []))) ''client_encoding'' = Some [] \<and>
   decode (double []) ''utf-8'' [] = Inr [] \<and>
   BaseConnection_client_encoding (double []) (conn OK IDLE (Some [])) = Inr ''UTF8''"
  by (simp add: fixtures BaseConnection_client_encoding_def)

end
